theory Spec2Isabelle
  imports Complex_Main "HOL-Library.Word" "HOL-Library.Sublist"
begin

unbundle bit_operations_syntax

section \<open>Data model\<close>

text \<open>
  The similarity search of \<^verbatim>\<open>database.py\<close>: embeddings are stored as blobs of
  32-bit floats, read back, scored against a query by cosine similarity, filtered by a
  threshold, sorted and cut to \<^verbatim>\<open>max_results\<close>.

  Python floats are modelled as reals: finite values with exact arithmetic. Rounding,
  infinities and NaN are outside the model. The cast to \<^verbatim>\<open>np.float32\<close> and the reading
  of a 32-bit pattern as a float belong to numpy; the codec takes them as the parameters
  \<open>bits\<close> and \<open>val\<close>. Text is a \<open>string\<close>; a nullable column is an \<open>option\<close>.

  The store is a value: the list of rows in the order in which a query fetches them.
  Opening the database and running a query are taken to succeed. A function that calls
  \<^verbatim>\<open>st.error\<close> returns its result together with the list of errors shown.
\<close>

type_synonym byte = "8 word"

datatype exn = ValueError | TypeError | JSONDecodeError | ProviderError

text \<open>The messages shown by \<^verbatim>\<open>st.error\<close>, one constructor for each call site.\<close>

datatype st_error =
    Embeddings_error exn
  | Search_error exn
  | Similar_meetings_error exn
  | Error_retrieving_meeting exn

text \<open>A row of the table \<^verbatim>\<open>meetings\<close> (the columns that the search reads).\<close>

record meeting =
  m_id :: int
  m_title :: string
  m_date :: string
  m_transcript :: "string option"
  m_summary :: "string option"
  m_decisions :: "string option"
  m_action_items :: "string option"
  m_participants :: "string option"
  m_follow_up :: "string option"
  m_embeddings :: "byte list option"

text \<open>A row of the table \<^verbatim>\<open>function_calls\<close> (its JSON columns).\<close>

record function_call =
  fc_meeting_id :: "int option"
  fc_arguments :: "string option"
  fc_result :: "string option"

record database =
  meetings :: "meeting list"
  function_calls :: "function_call list"

text \<open>
  The dictionaries appended to \<^verbatim>\<open>results\<close>: \<^verbatim>\<open>get_similar_meetings\<close> builds the
  keys of \<open>hit\<close>, \<^verbatim>\<open>search_meetings\<close> adds the key \<^verbatim>\<open>transcript\<close>.
\<close>

record hit =
  hit_id :: int
  hit_title :: string
  hit_date :: string
  hit_summary :: "string option"
  similarity :: real

record search_hit = hit +
  hit_transcript :: string

section \<open>numpy and Python primitives\<close>

text \<open>
  The four bytes of a 32-bit pattern, least significant first (the byte order in which
  numpy writes and reads on a little-endian machine), and back.
\<close>

definition le_bytes32 :: "32 word \<Rightarrow> byte list" where
  "le_bytes32 w = [ucast w, ucast (drop_bit 8 w), ucast (drop_bit 16 w), ucast (drop_bit 24 w)]"

definition le_word32 :: "byte \<Rightarrow> byte \<Rightarrow> byte \<Rightarrow> byte \<Rightarrow> 32 word" where
  "le_word32 b0 b1 b2 b3 =
     ucast b0 OR push_bit 8 (ucast b1) OR push_bit 16 (ucast b2) OR push_bit 24 (ucast b3)"

text \<open>\<^verbatim>\<open>np.array(v, dtype=np.float32).tobytes()\<close>: each element cast and written out.\<close>

definition np_tobytes :: "('f \<Rightarrow> 32 word) \<Rightarrow> 'f list \<Rightarrow> byte list" where
  "np_tobytes bits v = concat (map (\<lambda>x. le_bytes32 (bits x)) v)"

fun read_float32s :: "(32 word \<Rightarrow> 'f) \<Rightarrow> byte list \<Rightarrow> 'f list" where
  "read_float32s val (b0 # b1 # b2 # b3 # rest) = val (le_word32 b0 b1 b2 b3) # read_float32s val rest"
| "read_float32s val _ = []"

text \<open>
  \<^verbatim>\<open>np.frombuffer(blob, dtype=np.float32).tolist()\<close>: numpy raises ValueError when the
  buffer size is not a multiple of the element size.
\<close>

definition np_frombuffer :: "(32 word \<Rightarrow> 'f) \<Rightarrow> byte list \<Rightarrow> exn + 'f list" where
  "np_frombuffer val blob =
     (if length blob mod 4 \<noteq> 0 then Inl ValueError else Inr (read_float32s val blob))"

text \<open>
  numpy computes in IEEE doubles: \<^verbatim>\<open>np.dot\<close>, \<^verbatim>\<open>np.linalg.norm\<close> and the product and
  quotient of two doubles each return a rounded result, and the order in which
  \<^verbatim>\<open>np.dot\<close> adds is numpy's own. These four results are taken as they come, as the
  fields of a parameter \<open>ar\<close>; every theorem with a free \<open>ar\<close> holds for the arithmetic
  that numpy performs. \<open>exact\<close> is the arithmetic without rounding; the examples are evaluated
  with it.
\<close>

record arith =
  a_dot :: "real list \<Rightarrow> real list \<Rightarrow> real"
  a_norm :: "real list \<Rightarrow> real"
  a_times :: "real \<Rightarrow> real \<Rightarrow> real"
  a_divide :: "real \<Rightarrow> real \<Rightarrow> real"

definition exact :: arith where
  "exact =
     \<lparr>a_dot = (\<lambda>a b. sum_list (map2 (*) a b)),
      a_norm = (\<lambda>a. sqrt (sum_list (map (\<lambda>x. x * x) a))),
      a_times = (*), a_divide = (/)\<rparr>"

text \<open>\<^verbatim>\<open>np.dot\<close> of two one-dimensional arrays raises ValueError when the shapes differ.\<close>

definition np_dot :: "arith \<Rightarrow> real list \<Rightarrow> real list \<Rightarrow> exn + real" where
  "np_dot ar a b = (if length a \<noteq> length b then Inl ValueError else Inr (a_dot ar a b))"

definition np_linalg_norm :: "arith \<Rightarrow> real list \<Rightarrow> real" where
  "np_linalg_norm ar a = a_norm ar a"

text \<open>
  \<^verbatim>\<open>xs.sort(key=key, reverse=True)\<close>: CPython reverses the list, sorts it stably in
  ascending order and reverses the result.
\<close>

definition py_sort_reverse :: "('a \<Rightarrow> real) \<Rightarrow> 'a list \<Rightarrow> 'a list" where
  "py_sort_reverse key xs = rev (sort_key key (rev xs))"

text \<open>The slice \<^verbatim>\<open>xs[:n]\<close>: a negative \<open>n\<close> counts from the end.\<close>

definition py_slice_to :: "'a list \<Rightarrow> int \<Rightarrow> 'a list" where
  "py_slice_to xs n = (if n < 0 then take (length xs - nat (- n)) xs else take (nat n) xs)"

text \<open>
  \<^verbatim>\<open>json.loads\<close> raises TypeError on \<^verbatim>\<open>None\<close> and JSONDecodeError on text that
  is not JSON. The parsed value is not used by the search and not modelled; which texts
  are JSON is the parameter \<open>json_valid\<close>.
\<close>

definition json_loads :: "(string \<Rightarrow> bool) \<Rightarrow> string option \<Rightarrow> exn + unit" where
  "json_loads json_valid s =
     (case s of None \<Rightarrow> Inl TypeError
      | Some t \<Rightarrow> if json_valid t then Inr () else Inl JSONDecodeError)"

fun json_loads_all :: "(string \<Rightarrow> bool) \<Rightarrow> string option list \<Rightarrow> exn + unit" where
  "json_loads_all json_valid [] = Inr ()"
| "json_loads_all json_valid (s # ss) =
     (case json_loads json_valid s of Inl e \<Rightarrow> Inl e | Inr _ \<Rightarrow> json_loads_all json_valid ss)"

text \<open>
  The value of an IEEE 754 binary32 pattern with a finite value (exponent field below
  255), used where a concrete reading of the stored floats is needed.
\<close>

definition float32_value :: "32 word \<Rightarrow> real" where
  "float32_value w =
     (let e = unat (take_bit 8 (drop_bit 23 w));
          m = unat (take_bit 23 w);
          mag = (if e = 0 then real m / 2 ^ 149 else real (2 ^ 23 + m) * 2 ^ e / 2 ^ 150)
      in if bit w 31 then - mag else mag)"

section \<open>The codec\<close>

text \<open>\<^verbatim>\<open>_serialize_embeddings\<close> and \<^verbatim>\<open>_deserialize_embeddings\<close>.\<close>

definition serialize_embeddings :: "('f \<Rightarrow> 32 word) \<Rightarrow> 'f list \<Rightarrow> byte list" where
  "serialize_embeddings bits embeddings =
     (if embeddings = [] then [] else np_tobytes bits embeddings)"

definition deserialize_embeddings :: "(32 word \<Rightarrow> 'f) \<Rightarrow> byte list \<Rightarrow> exn + 'f list" where
  "deserialize_embeddings val embeddings_blob =
     (if embeddings_blob = [] then Inr [] else np_frombuffer val embeddings_blob)"

section \<open>Cosine similarity\<close>

text \<open>The body of the \<^verbatim>\<open>try\<close> block of \<^verbatim>\<open>_cosine_similarity\<close>.\<close>

definition cosine_try :: "arith \<Rightarrow> real list \<Rightarrow> real list \<Rightarrow> exn + real" where
  "cosine_try ar vec1 vec2 =
     (case np_dot ar vec1 vec2 of
        Inl e \<Rightarrow> Inl e
      | Inr dot_product \<Rightarrow>
          (let norm1 = np_linalg_norm ar vec1; norm2 = np_linalg_norm ar vec2
           in if norm1 = 0 \<or> norm2 = 0 then Inr 0
              else Inr (a_divide ar dot_product (a_times ar norm1 norm2))))"

text \<open>\<^verbatim>\<open>_cosine_similarity\<close>: \<^verbatim>\<open>except Exception: return 0.0\<close>.\<close>

definition cosine_similarity :: "arith \<Rightarrow> real list \<Rightarrow> real list \<Rightarrow> real" where
  "cosine_similarity ar vec1 vec2 =
     (case cosine_try ar vec1 vec2 of Inl _ \<Rightarrow> 0 | Inr s \<Rightarrow> s)"

section \<open>The searches\<close>

text \<open>
  \<^verbatim>\<open>AIServices.get_embeddings\<close>: the outcome of the provider call is an input; an
  exception is shown and turned into the empty list.
\<close>

definition get_embeddings :: "exn + real list \<Rightarrow> real list \<times> st_error list" where
  "get_embeddings provider =
     (case provider of Inl e \<Rightarrow> ([], [Embeddings_error e]) | Inr embedding \<Rightarrow> (embedding, []))"

text \<open>\<^verbatim>\<open>SELECT ... FROM meetings WHERE embeddings IS NOT NULL\<close>, in fetch order.\<close>

definition select_embedded :: "database \<Rightarrow> (meeting \<times> byte list) list" where
  "select_embedded db =
     List.map_filter (\<lambda>m. case m_embeddings m of None \<Rightarrow> None | Some blob \<Rightarrow> Some (m, blob))
       (meetings db)"

text \<open>\<^verbatim>\<open>SELECT ... FROM meetings WHERE id != ? AND embeddings IS NOT NULL\<close>.\<close>

definition select_others :: "database \<Rightarrow> int \<Rightarrow> (meeting \<times> byte list) list" where
  "select_others db meeting_id = filter (\<lambda>(m, blob). m_id m \<noteq> meeting_id) (select_embedded db)"

text \<open>
  The two lines that score a fetched row, the same in both loops:
  \<^verbatim>\<open>_deserialize_embeddings\<close> of the blob, which may raise, then
  \<^verbatim>\<open>_cosine_similarity\<close> against the query.
\<close>

definition row_similarity :: "arith \<Rightarrow> (32 word \<Rightarrow> real) \<Rightarrow> real list \<Rightarrow> byte list \<Rightarrow> exn + real" where
  "row_similarity ar val query_embeddings embeddings_blob =
     (case deserialize_embeddings val embeddings_blob of
        Inl e \<Rightarrow> Inl e
      | Inr meeting_embeddings \<Rightarrow> Inr (cosine_similarity ar query_embeddings meeting_embeddings))"

text \<open>
  The \<^verbatim>\<open>for\<close> loop of \<^verbatim>\<open>search_meetings\<close> over the fetched rows; \<open>thr\<close> stands for
  the literal \<^verbatim>\<open>0.3\<close>. An exception leaves the loop. \<^verbatim>\<open>len(transcript)\<close> raises
  TypeError when the transcript is NULL.
\<close>

fun search_rows ::
  "arith \<Rightarrow> real \<Rightarrow> (32 word \<Rightarrow> real) \<Rightarrow> real list \<Rightarrow> (meeting \<times> byte list) list \<Rightarrow>
   search_hit list \<Rightarrow> exn + search_hit list" where
  "search_rows ar thr val query_embeddings [] results = Inr results"
| "search_rows ar thr val query_embeddings ((row, embeddings_blob) # rows) results =
     (if embeddings_blob = [] then search_rows ar thr val query_embeddings rows results
      else
        (case row_similarity ar val query_embeddings embeddings_blob of
           Inl e \<Rightarrow> Inl e
         | Inr sim \<Rightarrow>
             if sim > thr then
               (case m_transcript row of
                  None \<Rightarrow> Inl TypeError
                | Some transcript \<Rightarrow>
                    search_rows ar thr val query_embeddings rows
                      (results @
                        [\<lparr>hit_id = m_id row, hit_title = m_title row, hit_date = m_date row,
                          hit_summary = m_summary row, similarity = sim,
                          hit_transcript =
                            (if length transcript > 500 then take 500 transcript @ ''...''
                             else transcript)\<rparr>]))
             else search_rows ar thr val query_embeddings rows results))"

text \<open>
  The literals \<^verbatim>\<open>0.3\<close> and \<^verbatim>\<open>0.2\<close> of the source denote the doubles nearest to
  3/10 and 2/10.
\<close>

definition float_0_3 :: real where
  "float_0_3 = 5404319552844595 / 2 ^ 54"

definition float_0_2 :: real where
  "float_0_2 = 3602879701896397 / 2 ^ 54"

text \<open>\<^verbatim>\<open>search_meetings\<close> with the threshold as a parameter.\<close>

definition search_meetings_thr ::
  "arith \<Rightarrow> real \<Rightarrow> (32 word \<Rightarrow> real) \<Rightarrow> exn + real list \<Rightarrow> database \<Rightarrow> int \<Rightarrow>
   search_hit list \<times> st_error list" where
  "search_meetings_thr ar thr val provider db max_results =
     (case get_embeddings provider of
        (query_embeddings, shown) \<Rightarrow>
          if query_embeddings = [] then ([], shown)
          else
            (case search_rows ar thr val query_embeddings (select_embedded db) [] of
               Inl e \<Rightarrow> ([], shown @ [Search_error e])
             | Inr results \<Rightarrow>
                 (py_slice_to (py_sort_reverse similarity results) max_results, shown)))"

definition search_meetings ::
  "arith \<Rightarrow> (32 word \<Rightarrow> real) \<Rightarrow> exn + real list \<Rightarrow> database \<Rightarrow> int \<Rightarrow> search_hit list \<times> st_error list" where
  "search_meetings ar = search_meetings_thr ar float_0_3"

text \<open>
  \<^verbatim>\<open>get_meeting_by_id\<close>: the first row with the id, then the JSON columns of the row
  and of its function calls are parsed; an exception is shown and gives \<^verbatim>\<open>None\<close>.
\<close>

definition get_meeting_by_id ::
  "(string \<Rightarrow> bool) \<Rightarrow> database \<Rightarrow> int \<Rightarrow> meeting option \<times> st_error list" where
  "get_meeting_by_id json_valid db meeting_id =
     (case find (\<lambda>m. m_id m = meeting_id) (meetings db) of
        None \<Rightarrow> (None, [])
      | Some m \<Rightarrow>
          (case json_loads_all json_valid
                  ([m_decisions m, m_action_items m, m_participants m, m_follow_up m] @
                   concat (map (\<lambda>c. [fc_arguments c, fc_result c])
                     (filter (\<lambda>c. fc_meeting_id c = Some meeting_id) (function_calls db)))) of
             Inl e \<Rightarrow> (None, [Error_retrieving_meeting e])
           | Inr _ \<Rightarrow> (Some m, [])))"

text \<open>
  The \<^verbatim>\<open>for\<close> loop of \<^verbatim>\<open>get_similar_meetings\<close>; \<open>thr\<close> stands for the literal
  \<^verbatim>\<open>0.2\<close>.
\<close>

fun similar_rows ::
  "arith \<Rightarrow> real \<Rightarrow> (32 word \<Rightarrow> real) \<Rightarrow> real list \<Rightarrow> (meeting \<times> byte list) list \<Rightarrow>
   hit list \<Rightarrow> exn + hit list" where
  "similar_rows ar thr val meeting_embeddings [] results = Inr results"
| "similar_rows ar thr val meeting_embeddings ((row, embeddings_blob) # rows) results =
     (case row_similarity ar val meeting_embeddings embeddings_blob of
        Inl e \<Rightarrow> Inl e
      | Inr sim \<Rightarrow>
          if sim > thr then
            similar_rows ar thr val meeting_embeddings rows
              (results @
                [\<lparr>hit_id = m_id row, hit_title = m_title row, hit_date = m_date row,
                  hit_summary = m_summary row, similarity = sim\<rparr>])
          else similar_rows ar thr val meeting_embeddings rows results)"

text \<open>\<^verbatim>\<open>get_similar_meetings\<close> with the threshold as a parameter.\<close>

definition get_similar_meetings_thr ::
  "arith \<Rightarrow> real \<Rightarrow> (32 word \<Rightarrow> real) \<Rightarrow> (string \<Rightarrow> bool) \<Rightarrow> database \<Rightarrow> int \<Rightarrow> int \<Rightarrow>
   hit list \<times> st_error list" where
  "get_similar_meetings_thr ar thr val json_valid db meeting_id max_results =
     (case get_meeting_by_id json_valid db meeting_id of
        (None, shown) \<Rightarrow> ([], shown)
      | (Some m, shown) \<Rightarrow>
          (case m_embeddings m of
             None \<Rightarrow> ([], shown)
           | Some blob \<Rightarrow>
               if blob = [] then ([], shown)
               else
                 (case deserialize_embeddings val blob of
                    Inl e \<Rightarrow> ([], shown @ [Similar_meetings_error e])
                  | Inr meeting_embeddings \<Rightarrow>
                      (case similar_rows ar thr val meeting_embeddings
                              (select_others db meeting_id) [] of
                         Inl e \<Rightarrow> ([], shown @ [Similar_meetings_error e])
                       | Inr results \<Rightarrow>
                           (py_slice_to (py_sort_reverse similarity results) max_results,
                            shown)))))"

definition get_similar_meetings ::
  "arith \<Rightarrow> (32 word \<Rightarrow> real) \<Rightarrow> (string \<Rightarrow> bool) \<Rightarrow> database \<Rightarrow> int \<Rightarrow> int \<Rightarrow> hit list \<times> st_error list" where
  "get_similar_meetings ar = get_similar_meetings_thr ar float_0_2"

section \<open>An example store\<close>

text \<open>
  A stored meeting with the given id and blob, and a store of such meetings; the blobs
  used below hold the floats \<open>[1, 0]\<close>, \<open>[0, 1]\<close>, \<open>[3, 4]\<close>, \<open>[2, 0]\<close> and \<open>[1]\<close>.
\<close>

definition stored_meeting :: "int \<Rightarrow> byte list \<Rightarrow> meeting" where
  "stored_meeting i blob =
     \<lparr>m_id = i, m_title = ''weekly'', m_date = ''2024-01-01'', m_transcript = Some ''hello'',
      m_summary = None, m_decisions = Some ''[]'', m_action_items = Some ''[]'',
      m_participants = Some ''[]'', m_follow_up = Some ''[]'', m_embeddings = Some blob\<rparr>"

definition store_of :: "(int \<times> byte list) list \<Rightarrow> database" where
  "store_of rows = \<lparr>meetings = map (\<lambda>(i, blob). stored_meeting i blob) rows, function_calls = []\<rparr>"

section \<open>The codec: lengths, failure and round trip\<close>


lemma length_np_tobytes: "length (np_tobytes bits v) = 4 * length v"
  by (induction v) (simp_all add: np_tobytes_def le_bytes32_def)


lemma length_read_float32s: "length (read_float32s val b) = length b div 4"
  by (induction val b rule: read_float32s.induct) simp_all

text \<open>
  Claim C9. The encoding of an embedding \<open>v\<close> has exactly \<open>4 * len(v)\<close> bytes; the empty
  embedding encodes to the empty byte sequence, and the empty byte sequence decodes to the
  empty embedding.
\<close>

theorem serialize_length:
  "length (serialize_embeddings bits v) = 4 * length v \<and>
   serialize_embeddings bits [] = [] \<and>
   deserialize_embeddings val [] = Inr []"
  by (simp add: serialize_embeddings_def deserialize_embeddings_def length_np_tobytes)

text \<open>
  Claim C6. Decoding a byte sequence \<open>b\<close> fails exactly when \<open>len(b) % 4 \<noteq> 0\<close>, with the
  ValueError of numpy; otherwise it succeeds with \<open>len(b) / 4\<close> elements, and the empty byte
  sequence decodes to the empty embedding.
\<close>

theorem deserialize_fails_iff:
  "((\<exists>e. deserialize_embeddings val b = Inl e) \<longleftrightarrow> length b mod 4 \<noteq> 0) \<and>
   (length b mod 4 \<noteq> 0 \<longrightarrow> deserialize_embeddings val b = Inl ValueError) \<and>
   (length b mod 4 = 0 \<longrightarrow>
      (\<exists>v. deserialize_embeddings val b = Inr v \<and> length v = length b div 4)) \<and>
   deserialize_embeddings val [] = Inr []"
  by (auto simp add: deserialize_embeddings_def np_frombuffer_def length_read_float32s)

theorem deserialize_fails_iff_witness:
  "length [1, 2, 3 :: byte] mod 4 \<noteq> 0 \<and>
   deserialize_embeddings float32_value [1, 2, 3] = Inl ValueError \<and>
   length [0, 0, 0x80, 0x3F :: byte] mod 4 = 0 \<and>
   (\<exists>v. deserialize_embeddings float32_value [0, 0, 0x80, 0x3F] = Inr v \<and> length v = 1)"
  using deserialize_fails_iff [of float32_value "[1, 2, 3]"]
    deserialize_fails_iff [of float32_value "[0, 0, 0x80, 0x3F]"]
  by simp


section \<open>Cosine similarity: zero norms\<close>

lemma np_linalg_norm_replicate_zero: "np_linalg_norm exact (replicate n 0) = 0"
  by (induction n) (simp_all add: np_linalg_norm_def exact_def)

text \<open>
  Claim C5. For embeddings of equal length, when the norm of either is exactly zero the
  body of \<^verbatim>\<open>_cosine_similarity\<close> raises nothing and returns 0.0, whatever the arithmetic.
  In particular the similarity of a zero vector and any \<open>x\<close> is 0.0, also when \<open>x\<close> is
  itself zero: in every arithmetic that gives the zero vector the norm 0, as the exact
  one does.
\<close>

theorem cosine_zero_norm:
  "(length a = length b \<and> (np_linalg_norm ar a = 0 \<or> np_linalg_norm ar b = 0) \<longrightarrow>
      cosine_try ar a b = Inr 0 \<and> cosine_similarity ar a b = 0) \<and>
   (np_linalg_norm ar (replicate n 0) = 0 \<longrightarrow>
      (length x = n \<longrightarrow> cosine_try ar (replicate n 0) x = Inr 0) \<and>
      cosine_similarity ar (replicate n 0) x = 0) \<and>
   cosine_try exact (replicate (length x) 0) x = Inr 0 \<and>
   cosine_similarity exact (replicate (length x) 0) x = 0 \<and>
   cosine_similarity exact (replicate n 0) x = 0"
proof -
  have guard: "cosine_try ar' u w = Inr 0"
    if "length u = length w" "np_linalg_norm ar' u = 0 \<or> np_linalg_norm ar' w = 0" for ar' u w
    using that by (auto simp add: cosine_try_def np_dot_def Let_def)
  have any: "cosine_similarity ar' u w = 0"
    if "np_linalg_norm ar' u = 0 \<or> np_linalg_norm ar' w = 0" for ar' u w
    using that by (auto simp add: cosine_similarity_def cosine_try_def np_dot_def Let_def)
  show ?thesis
    using guard [of a b ar] any [of ar a b]
      guard [of "replicate n 0" x ar] any [of ar "replicate n 0" x]
      guard [of "replicate (length x) 0" x exact] any [of exact "replicate (length x) 0" x]
      any [of exact "replicate n 0" x]
      np_linalg_norm_replicate_zero [of "length x"] np_linalg_norm_replicate_zero [of n]
    by auto
qed

theorem cosine_zero_norm_witness:
  "length [0, 0 :: real] = length [3, 4 :: real] \<and> np_linalg_norm exact [0, 0] = 0 \<and>
   cosine_try exact [0, 0] [3, 4] = Inr 0 \<and> cosine_similarity exact [0, 0] [3, 4] = 0"
  using cosine_zero_norm [of "[0, 0]" "[3, 4]" exact 2 "[3, 4]"]
  by (simp add: np_linalg_norm_def exact_def)

section \<open>The loops: which rows are kept\<close>

lemma search_rows_ids:
  "search_rows ar thr val q rows acc = Inr res \<Longrightarrow>
   map hit_id res = map hit_id acc @
     map (\<lambda>(m, blob). m_id m)
       (filter (\<lambda>(m, blob). blob \<noteq> [] \<and>
          (case row_similarity ar val q blob of Inl e \<Rightarrow> False | Inr s \<Rightarrow> thr < s)) rows)"
proof (induction rows arbitrary: acc)
  case Nil
  then show ?case by simp
next
  case (Cons p rows)
  obtain m blob where p: "p = (m, blob)" by (cases p)
  show ?case
    using Cons.prems Cons.IH unfolding p
    by (auto split: if_splits sum.splits option.splits)
qed



lemma similar_rows_ids:
  "similar_rows ar thr val q rows acc = Inr res \<Longrightarrow>
   map hit_id res = map hit_id acc @
     map (\<lambda>(m, blob). m_id m)
       (filter (\<lambda>(m, blob).
          (case row_similarity ar val q blob of Inl e \<Rightarrow> False | Inr s \<Rightarrow> thr < s)) rows)"
proof (induction rows arbitrary: acc)
  case Nil
  then show ?case by simp
next
  case (Cons p rows)
  obtain m blob where p: "p = (m, blob)" by (cases p)
  show ?case
    using Cons.prems Cons.IH unfolding p
    by (auto split: if_splits sum.splits option.splits)
qed





lemma search_rows_skip_mismatch:
  assumes "0 \<le> thr" "deserialize_embeddings val blob = Inr emb" "length emb \<noteq> length q"
  shows "search_rows ar thr val q ((row, blob) # rows) acc = search_rows ar thr val q rows acc"
  using assms
  by (simp add: row_similarity_def cosine_similarity_def cosine_try_def np_dot_def)

lemma similar_rows_skip_mismatch:
  assumes "0 \<le> thr" "deserialize_embeddings val blob = Inr emb" "length emb \<noteq> length q"
  shows "similar_rows ar thr val q ((row, blob) # rows) acc = similar_rows ar thr val q rows acc"
  using assms
  by (simp add: row_similarity_def cosine_similarity_def cosine_try_def np_dot_def)


lemma search_rows_length:
  assumes "search_rows ar thr val q rows [] = Inr res"
  shows "length res \<le> length rows"
proof -
  have "length (map hit_id res) \<le> length rows"
    unfolding search_rows_ids [OF assms] by simp
  then show ?thesis by simp
qed

lemma similar_rows_length:
  assumes "similar_rows ar thr val q rows [] = Inr res"
  shows "length res \<le> length rows"
proof -
  have "length (map hit_id res) \<le> length rows"
    unfolding similar_rows_ids [OF assms] by simp
  then show ?thesis by simp
qed

lemma length_select_embedded: "length (select_embedded db) \<le> length (meetings db)"
  unfolding select_embedded_def List.map_filter_def
  by (simp add: le_trans [OF length_filter_le])

lemma length_select_others: "length (select_others db mid) \<le> length (meetings db)"
  unfolding select_others_def
  by (rule le_trans [OF length_filter_le length_select_embedded])

lemma select_others_ids: "\<forall>(m, blob)\<in>set (select_others db mid). m_id m \<noteq> mid"
  by (auto simp add: select_others_def)

section \<open>Sorting and slicing\<close>

lemma sorted_py_sort_reverse:
  "sorted_wrt (\<lambda>a b. key b \<le> key a) (py_sort_reverse key xs)"
proof -
  have "sorted (map key (sort_key key (rev xs)))"
    by simp
  then have "sorted_wrt (\<lambda>a b. key a \<le> key b) (sort_key key (rev xs))"
    by (simp add: sorted_map)
  then show ?thesis
    by (simp add: py_sort_reverse_def sorted_wrt_rev)
qed

lemma stable_py_sort_reverse:
  "filter (\<lambda>y. key y = k) (py_sort_reverse key xs) = filter (\<lambda>y. key y = k) xs"
proof -
  have "filter (\<lambda>y. key y = k) (sort_key key (rev xs)) = filter (\<lambda>y. key y = k) (rev xs)"
    by (rule sort_key_stable)
  then have "rev (filter (\<lambda>y. key y = k) (sort_key key (rev xs))) = filter (\<lambda>y. key y = k) xs"
    by (simp add: rev_filter)
  then show ?thesis
    by (simp add: py_sort_reverse_def rev_filter)
qed

lemma set_py_sort_reverse: "set (py_sort_reverse key xs) = set xs"
  by (simp add: py_sort_reverse_def)

lemma length_py_sort_reverse: "length (py_sort_reverse key xs) = length xs"
  by (simp add: py_sort_reverse_def)

lemma prefix_py_slice_to: "prefix (py_slice_to xs n) xs"
  by (simp add: py_slice_to_def take_is_prefix)

lemma length_py_slice_to: "0 \<le> n \<Longrightarrow> int (length (py_slice_to xs n)) \<le> n"
  by (simp add: py_slice_to_def)

lemma py_slice_to_zero: "py_slice_to xs 0 = []"
  by (simp add: py_slice_to_def)

lemma py_slice_to_Nil: "py_slice_to [] n = []"
  by (simp add: py_slice_to_def)

lemma py_slice_to_all: "length xs \<le> m \<Longrightarrow> py_slice_to xs (int m) = xs"
  by (simp add: py_slice_to_def)

lemma ranked_sorted:
  "sorted_wrt (\<lambda>a b. key b \<le> key a) (py_slice_to (py_sort_reverse key xs) n)"
  by (simp add: py_slice_to_def sorted_wrt_take sorted_py_sort_reverse)

lemma ranked_stable:
  "prefix (filter (\<lambda>y. key y = k) (py_slice_to (py_sort_reverse key xs) n))
     (filter (\<lambda>y. key y = k) xs)"
proof -
  have "prefix (filter (\<lambda>y. key y = k) (py_slice_to (py_sort_reverse key xs) n))
          (filter (\<lambda>y. key y = k) (py_sort_reverse key xs))"
    by (rule filter_mono_prefix) (rule prefix_py_slice_to)
  then show ?thesis
    by (simp add: stable_py_sort_reverse)
qed

section \<open>The shape of the two searches\<close>

lemma search_meetings_thr_cases:
  "fst (search_meetings_thr ar thr val provider db n) = [] \<or>
   (\<exists>q results. provider = Inr q \<and> q \<noteq> [] \<and>
      search_rows ar thr val q (select_embedded db) [] = Inr results \<and>
      search_meetings_thr ar thr val provider db n =
        (py_slice_to (py_sort_reverse similarity results) n, []))"
  by (auto simp add: search_meetings_thr_def get_embeddings_def split: sum.splits)

lemma get_similar_meetings_thr_cases:
  "fst (get_similar_meetings_thr ar thr val jv db mid n) = [] \<or>
   (\<exists>m blob q results. get_meeting_by_id jv db mid = (Some m, []) \<and>
      m_embeddings m = Some blob \<and> blob \<noteq> [] \<and>
      deserialize_embeddings val blob = Inr q \<and>
      similar_rows ar thr val q (select_others db mid) [] = Inr results \<and>
      get_similar_meetings_thr ar thr val jv db mid n =
        (py_slice_to (py_sort_reverse similarity results) n, []))"
  by (auto simp add: get_similar_meetings_thr_def get_meeting_by_id_def
      split: sum.splits option.splits prod.splits if_splits)

lemma search_meetings_thr_ranked:
  "\<exists>ranked shown. length ranked \<le> length (meetings db) \<and>
     (\<forall>n. search_meetings_thr ar thr val provider db n = (py_slice_to ranked n, shown))"
proof (cases provider)
  case (Inl e)
  then have "\<forall>n. search_meetings_thr ar thr val provider db n = (py_slice_to [] n, [Embeddings_error e])"
    by (simp add: search_meetings_thr_def get_embeddings_def py_slice_to_Nil)
  then show ?thesis by (intro exI [of _ "[]"] exI conjI) simp_all
next
  case (Inr q)
  show ?thesis
  proof (cases "q = []")
    case True
    then have "\<forall>n. search_meetings_thr ar thr val provider db n = (py_slice_to [] n, [])"
      using Inr by (simp add: search_meetings_thr_def get_embeddings_def py_slice_to_Nil)
    then show ?thesis by (intro exI [of _ "[]"] exI conjI) simp_all
  next
    case False
    show ?thesis
    proof (cases "search_rows ar thr val q (select_embedded db) []")
      case (Inl e)
      then have "\<forall>n. search_meetings_thr ar thr val provider db n = (py_slice_to [] n, [Search_error e])"
        using \<open>provider = Inr q\<close> False
        by (simp add: search_meetings_thr_def get_embeddings_def py_slice_to_Nil)
      then show ?thesis by (intro exI [of _ "[]"] exI conjI) simp_all
    next
      case run: (Inr results)
      have "length (py_sort_reverse similarity results) \<le> length (meetings db)"
        using search_rows_length [OF run] length_select_embedded [of db]
        by (simp add: length_py_sort_reverse)
      moreover have "\<forall>n. search_meetings_thr ar thr val provider db n =
          (py_slice_to (py_sort_reverse similarity results) n, [])"
        using \<open>provider = Inr q\<close> False run
        by (simp add: search_meetings_thr_def get_embeddings_def)
      ultimately show ?thesis by blast
    qed
  qed
qed

lemma get_similar_meetings_thr_ranked:
  "\<exists>ranked shown. length ranked \<le> length (meetings db) \<and>
     (\<forall>n. get_similar_meetings_thr ar thr val jv db mid n = (py_slice_to ranked n, shown))"
proof -
  obtain mo shown where g: "get_meeting_by_id jv db mid = (mo, shown)"
    by (cases "get_meeting_by_id jv db mid")
  have empty: "?thesis"
    if "\<forall>n. get_similar_meetings_thr ar thr val jv db mid n = ([], shown')" for shown'
    using that by (intro exI [of _ "[]"] exI [of _ shown'] conjI) (simp_all add: py_slice_to_Nil)
  show ?thesis
  proof (cases mo)
    case None
    with g show ?thesis by (intro empty [of shown]) (simp add: get_similar_meetings_thr_def)
  next
    case (Some m)
    note m = this
    show ?thesis
    proof (cases "m_embeddings m")
      case None
      with g m show ?thesis by (intro empty [of shown]) (simp add: get_similar_meetings_thr_def)
    next
      case (Some blob)
      note blob = this
      show ?thesis
      proof (cases "blob = []")
        case True
        with g m blob show ?thesis
          by (intro empty [of shown]) (simp add: get_similar_meetings_thr_def)
      next
        case False
        note ne = this
        show ?thesis
        proof (cases "deserialize_embeddings val blob")
          case (Inl e)
          with g m blob ne show ?thesis
            by (intro empty [of "shown @ [Similar_meetings_error e]"])
              (simp add: get_similar_meetings_thr_def)
        next
          case (Inr q)
          note q = this
          show ?thesis
          proof (cases "similar_rows ar thr val q (select_others db mid) []")
            case (Inl e)
            with g m blob ne q show ?thesis
              by (intro empty [of "shown @ [Similar_meetings_error e]"])
                (simp add: get_similar_meetings_thr_def)
          next
            case run: (Inr results)
            have "length (py_sort_reverse similarity results) \<le> length (meetings db)"
              using similar_rows_length [OF run] length_select_others [of db mid]
              by (simp add: length_py_sort_reverse)
            moreover have "\<forall>n. get_similar_meetings_thr ar thr val jv db mid n =
                (py_slice_to (py_sort_reverse similarity results) n, shown)"
              using g m blob ne q run by (simp add: get_similar_meetings_thr_def)
            ultimately show ?thesis by blast
          qed
        qed
      qed
    qed
  qed
qed

lemma sqrt_25: "sqrt 25 = 5"
  by (rule real_sqrt_unique) simp_all

lemmas eval_defs =
  exact_def float_0_3_def float_0_2_def search_meetings_def search_meetings_thr_def get_similar_meetings_def get_similar_meetings_thr_def
  get_meeting_by_id_def get_embeddings_def select_embedded_def select_others_def
  List.map_filter_def store_of_def stored_meeting_def row_similarity_def
  deserialize_embeddings_def np_frombuffer_def le_word32_def float32_value_def
  cosine_similarity_def cosine_try_def np_dot_def np_linalg_norm_def
  py_sort_reverse_def py_slice_to_def json_loads_def sqrt_25

section \<open>Dimension mismatch\<close>

text \<open>
  Claim C1, as amended. For \<open>len(a) \<noteq> len(b)\<close> the shape error of \<^verbatim>\<open>np.dot\<close> is caught
  inside \<^verbatim>\<open>_cosine_similarity\<close>, which returns 0.0. In a search with a threshold that is
  not negative (0.3 and 0.2 in the source) a candidate whose decoded length differs from
  the query's is skipped, and the scan goes on with the remaining rows.
\<close>

theorem dimension_mismatch_scores_zero:
  "(length a \<noteq> length b \<longrightarrow> cosine_try ar a b = Inl ValueError \<and> cosine_similarity ar a b = 0) \<and>
   (0 \<le> thr \<and> deserialize_embeddings val blob = Inr emb \<and> length emb \<noteq> length q \<longrightarrow>
      search_rows ar thr val q ((row, blob) # rows) acc = search_rows ar thr val q rows acc \<and>
      similar_rows ar thr val q ((row, blob) # rows) acc' = similar_rows ar thr val q rows acc')"
  using search_rows_skip_mismatch [of thr val blob emb q ar row rows acc]
    similar_rows_skip_mismatch [of thr val blob emb q ar row rows acc']
  by (simp add: cosine_similarity_def cosine_try_def np_dot_def)

theorem dimension_mismatch_scores_zero_witness:
  "length [1, 0 :: real] \<noteq> length [1 :: real] \<and>
   cosine_try exact [1, 0] [1] = Inl ValueError \<and> cosine_similarity exact [1, 0] [1] = 0 \<and>
   (0 :: real) \<le> 3 / 10 \<and>
   deserialize_embeddings float32_value [0, 0, 0x80, 0x3F] = Inr [1] \<and>
   search_rows exact (3 / 10) float32_value [1, 0] [(stored_meeting 1 [0, 0, 0x80, 0x3F], [0, 0, 0x80, 0x3F])] []
     = Inr [] \<and>
   similar_rows exact (3 / 10) float32_value [1, 0] [(stored_meeting 1 [0, 0, 0x80, 0x3F], [0, 0, 0x80, 0x3F])] []
     = Inr []"
  using dimension_mismatch_scores_zero [of "[1, 0]" "[1]" exact "3 / 10" float32_value
      "[0, 0, 0x80, 0x3F]" "[1]" "[1, 0]" "stored_meeting 1 [0, 0, 0x80, 0x3F]" "[]" "[]" "[]"]
  by (simp add: deserialize_embeddings_def np_frombuffer_def le_word32_def float32_value_def)

text \<open>
  The claim as the specification states it fails: with a query of length 2 and a stored
  vector of length 1 the similarity is the number 0, and a search over that row and a
  matching row returns the matching row without any error.
\<close>

theorem dimension_mismatch_counterexample:
  "length [1, 0 :: real] \<noteq> length [1 :: real] \<and> cosine_similarity exact [1, 0] [1] = 0 \<and>
   deserialize_embeddings float32_value [0, 0, 0x80, 0x3F] = Inr [1] \<and>
   map hit_id (fst (search_meetings exact float32_value (Inr [1, 0])
     (store_of [(1, [0, 0, 0x80, 0x3F]), (2, [0, 0, 0x80, 0x3F, 0, 0, 0, 0])]) 10)) = [2] \<and>
   snd (search_meetings exact float32_value (Inr [1, 0])
     (store_of [(1, [0, 0, 0x80, 0x3F]), (2, [0, 0, 0x80, 0x3F, 0, 0, 0, 0])]) 10) = []"
  by (simp add: eval_defs)

section \<open>Threshold\<close>



section \<open>Order and limit\<close>

text \<open>
  Claim C4, as amended. The result of either search is sorted by similarity in descending
  order; the entries with one score form an initial part of the kept rows with that score
  in fetch order (the sort is stable and has no second key); and for \<open>limit \<ge> 0\<close> the
  result has at most \<open>limit\<close> entries.
\<close>

theorem search_sorted_stable_limited:
  "sorted_wrt (\<lambda>a b. similarity b \<le> similarity a) (fst (search_meetings_thr ar thr val provider db n)) \<and>
   (0 \<le> n \<longrightarrow> int (length (fst (search_meetings_thr ar thr val provider db n))) \<le> n) \<and>
   (fst (search_meetings_thr ar thr val provider db n) = [] \<or>
    (\<exists>q results. provider = Inr q \<and>
       search_rows ar thr val q (select_embedded db) [] = Inr results \<and>
       map hit_id results =
         map (\<lambda>(m, blob). m_id m)
           (filter (\<lambda>(m, blob). blob \<noteq> [] \<and>
              (case row_similarity ar val q blob of Inl e \<Rightarrow> False | Inr s \<Rightarrow> thr < s))
             (select_embedded db)) \<and>
       (\<forall>s. prefix (filter (\<lambda>h. similarity h = s) (fst (search_meetings_thr ar thr val provider db n)))
              (filter (\<lambda>h. similarity h = s) results)))) \<and>
   sorted_wrt (\<lambda>a b. similarity b \<le> similarity a)
     (fst (get_similar_meetings_thr ar thr val jv db mid n)) \<and>
   (0 \<le> n \<longrightarrow> int (length (fst (get_similar_meetings_thr ar thr val jv db mid n))) \<le> n) \<and>
   (fst (get_similar_meetings_thr ar thr val jv db mid n) = [] \<or>
    (\<exists>m blob q hits. get_meeting_by_id jv db mid = (Some m, []) \<and> m_embeddings m = Some blob \<and>
       deserialize_embeddings val blob = Inr q \<and>
       similar_rows ar thr val q (select_others db mid) [] = Inr hits \<and>
       map hit_id hits =
         map (\<lambda>(m, blob). m_id m)
           (filter (\<lambda>(m, blob).
              (case row_similarity ar val q blob of Inl e \<Rightarrow> False | Inr s \<Rightarrow> thr < s))
             (select_others db mid)) \<and>
       (\<forall>s. prefix (filter (\<lambda>h. similarity h = s) (fst (get_similar_meetings_thr ar thr val jv db mid n)))
              (filter (\<lambda>h. similarity h = s) hits))))"
  (is "?sorted1 \<and> ?bound1 \<and> ?stable1 \<and> ?sorted2 \<and> ?bound2 \<and> ?stable2")
proof -
  have a: ?sorted1
    using search_meetings_thr_cases [of ar thr val provider db n]
    by (auto simp add: ranked_sorted)
  have b: ?bound1
    using search_meetings_thr_cases [of ar thr val provider db n]
    by (auto simp add: length_py_slice_to)
  have c: ?stable1
  proof (rule disjE [OF search_meetings_thr_cases [of ar thr val provider db n]])
    assume "fst (search_meetings_thr ar thr val provider db n) = []"
    then show ?thesis by simp
  next
    assume "\<exists>q results. provider = Inr q \<and> q \<noteq> [] \<and>
      search_rows ar thr val q (select_embedded db) [] = Inr results \<and>
      search_meetings_thr ar thr val provider db n =
        (py_slice_to (py_sort_reverse similarity results) n, [])"
    then obtain q results where "provider = Inr q"
      and run: "search_rows ar thr val q (select_embedded db) [] = Inr results"
      and "fst (search_meetings_thr ar thr val provider db n) =
         py_slice_to (py_sort_reverse similarity results) n"
      by auto
    then show ?thesis
      using ranked_stable [of similarity _ results n] search_rows_ids [OF run] by auto
  qed
  have d: ?sorted2
    using get_similar_meetings_thr_cases [of ar thr val jv db mid n]
    by (auto simp add: ranked_sorted)
  have e: ?bound2
    using get_similar_meetings_thr_cases [of ar thr val jv db mid n]
    by (auto simp add: length_py_slice_to)
  have f: ?stable2
  proof (rule disjE [OF get_similar_meetings_thr_cases [of ar thr val jv db mid n]])
    assume "fst (get_similar_meetings_thr ar thr val jv db mid n) = []"
    then show ?thesis by simp
  next
    assume "\<exists>m blob q results. get_meeting_by_id jv db mid = (Some m, []) \<and>
      m_embeddings m = Some blob \<and> blob \<noteq> [] \<and>
      deserialize_embeddings val blob = Inr q \<and>
      similar_rows ar thr val q (select_others db mid) [] = Inr results \<and>
      get_similar_meetings_thr ar thr val jv db mid n =
        (py_slice_to (py_sort_reverse similarity results) n, [])"
    then obtain m blob q results where "get_meeting_by_id jv db mid = (Some m, [])"
      "m_embeddings m = Some blob" "deserialize_embeddings val blob = Inr q"
      and run: "similar_rows ar thr val q (select_others db mid) [] = Inr results"
      and "fst (get_similar_meetings_thr ar thr val jv db mid n) =
         py_slice_to (py_sort_reverse similarity results) n"
      by auto
    then show ?thesis
      using ranked_stable [of similarity _ results n] similar_rows_ids [OF run] by auto
  qed
  from a b c d e f show ?thesis by blast
qed

theorem search_sorted_stable_limited_witness:
  "(0 :: int) \<le> 2 \<and>
   map (\<lambda>h. (hit_id h, similarity h)) (fst (search_meetings_thr exact (3 / 10) float32_value (Inr [1, 0])
     (store_of [(1, [0,0,0x80,0x3F, 0,0,0,0]), (2, [0,0,0,0, 0,0,0x80,0x3F]),
                (3, [0,0,0x40,0x40, 0,0,0x80,0x40]), (4, [0,0,0,0x40, 0,0,0,0])]) 2))
     = [(1, 1), (4, 1)] \<and>
   int (length (fst (search_meetings_thr exact (3 / 10) float32_value (Inr [1, 0])
     (store_of [(1, [0,0,0x80,0x3F, 0,0,0,0]), (2, [0,0,0,0, 0,0,0x80,0x3F]),
                (3, [0,0,0x40,0x40, 0,0,0x80,0x40]), (4, [0,0,0,0x40, 0,0,0,0])]) 2))) \<le> 2 \<and>
   sorted_wrt (\<lambda>a b. similarity b \<le> similarity a)
     (fst (search_meetings_thr exact (3 / 10) float32_value (Inr [1, 0])
       (store_of [(1, [0,0,0x80,0x3F, 0,0,0,0]), (2, [0,0,0,0, 0,0,0x80,0x3F]),
                  (3, [0,0,0x40,0x40, 0,0,0x80,0x40]), (4, [0,0,0,0x40, 0,0,0,0])]) 2))"
proof -
  have ranked: "map (\<lambda>h. (hit_id h, similarity h))
      (fst (search_meetings_thr exact (3 / 10) float32_value (Inr [1, 0])
        (store_of [(1, [0,0,0x80,0x3F, 0,0,0,0]), (2, [0,0,0,0, 0,0,0x80,0x3F]),
                   (3, [0,0,0x40,0x40, 0,0,0x80,0x40]), (4, [0,0,0,0x40, 0,0,0,0])]) 2))
      = [(1, 1), (4, 1)]"
    by (simp add: eval_defs)
  have limit: "(0 :: int) \<le> 2"
    by simp
  show ?thesis
    using ranked limit
      search_sorted_stable_limited [of exact "3 / 10" float32_value "Inr [1, 0]"
        "store_of [(1, [0,0,0x80,0x3F, 0,0,0,0]), (2, [0,0,0,0, 0,0,0x80,0x3F]),
                   (3, [0,0,0x40,0x40, 0,0,0x80,0x40]), (4, [0,0,0,0x40, 0,0,0,0])]" 2]
    by blast
qed

text \<open>
  The bound on the length fails for a negative limit: with three rows above the threshold
  and \<^verbatim>\<open>max_results = -2\<close> the search returns one entry.
\<close>

theorem search_limit_counterexample:
  "map hit_id (fst (search_meetings exact float32_value (Inr [1, 0])
     (store_of [(1, [0,0,0x80,0x3F, 0,0,0,0]), (2, [0,0,0,0, 0,0,0x80,0x3F]),
                (3, [0,0,0x40,0x40, 0,0,0x80,0x40]), (4, [0,0,0,0x40, 0,0,0,0])]) (- 2))) = [1] \<and>
   \<not> int (length (fst (search_meetings exact float32_value (Inr [1, 0])
     (store_of [(1, [0,0,0x80,0x3F, 0,0,0,0]), (2, [0,0,0,0, 0,0,0x80,0x3F]),
                (3, [0,0,0x40,0x40, 0,0,0x80,0x40]), (4, [0,0,0,0x40, 0,0,0,0])]) (- 2)))) \<le> - 2"
  by (simp add: eval_defs)

text \<open>
  Claim C7, as amended. With limit 0 either search returns the empty list, and the limit
  never changes the errors shown. With no candidate rows the result is empty and no error
  is shown (in \<^verbatim>\<open>get_similar_meetings\<close>, once the meeting's own embedding has been
  read). A negative limit \<open>-k\<close> returns the full ranking without its last \<open>k\<close> entries, as
  the slice \<^verbatim>\<open>results[:max_results]\<close> does.
\<close>

theorem search_limit_zero_and_negative:
  "fst (search_meetings_thr ar thr val provider db 0) = [] \<and>
   fst (get_similar_meetings_thr ar thr val jv db mid 0) = [] \<and>
   snd (search_meetings_thr ar thr val provider db n) = snd (search_meetings_thr ar thr val provider db n') \<and>
   snd (get_similar_meetings_thr ar thr val jv db mid n) =
     snd (get_similar_meetings_thr ar thr val jv db mid n') \<and>
   (select_embedded db = [] \<longrightarrow> search_meetings_thr ar thr val (Inr q) db n = ([], [])) \<and>
   (select_others db mid = [] \<longrightarrow>
      fst (get_similar_meetings_thr ar thr val jv db mid n) = [] \<and>
      (get_meeting_by_id jv db mid = (Some m0, []) \<and> m_embeddings m0 = Some b0 \<and>
       deserialize_embeddings val b0 = Inr q0 \<longrightarrow>
         get_similar_meetings_thr ar thr val jv db mid n = ([], []))) \<and>
   (n < 0 \<longrightarrow>
      fst (search_meetings_thr ar thr val provider db n) =
        take (length (fst (search_meetings_thr ar thr val provider db (int (length (meetings db))))) - nat (- n))
          (fst (search_meetings_thr ar thr val provider db (int (length (meetings db))))) \<and>
      fst (get_similar_meetings_thr ar thr val jv db mid n) =
        take (length (fst (get_similar_meetings_thr ar thr val jv db mid (int (length (meetings db))))) - nat (- n))
          (fst (get_similar_meetings_thr ar thr val jv db mid (int (length (meetings db))))))"
proof -
  obtain r1 s1 where 1: "length r1 \<le> length (meetings db)"
    "\<forall>n. search_meetings_thr ar thr val provider db n = (py_slice_to r1 n, s1)"
    using search_meetings_thr_ranked [of db ar thr val provider] by blast
  obtain r2 s2 where 2: "length r2 \<le> length (meetings db)"
    "\<forall>n. get_similar_meetings_thr ar thr val jv db mid n = (py_slice_to r2 n, s2)"
    using get_similar_meetings_thr_ranked [of db ar thr val jv mid] by blast
  have e1: "search_meetings_thr ar thr val (Inr q) db n = ([], [])" if "select_embedded db = []"
    using that
    by (simp add: search_meetings_thr_def get_embeddings_def py_sort_reverse_def py_slice_to_Nil)
  have e2: "fst (get_similar_meetings_thr ar thr val jv db mid n) = []" if "select_others db mid = []"
    using that get_similar_meetings_thr_cases [of ar thr val jv db mid n]
    by (auto simp add: py_sort_reverse_def py_slice_to_Nil)
  have e3: "get_similar_meetings_thr ar thr val jv db mid n = ([], [])"
    if "select_others db mid = []" "get_meeting_by_id jv db mid = (Some m0, [])"
      "m_embeddings m0 = Some b0" "deserialize_embeddings val b0 = Inr q0"
    using that
    by (simp add: get_similar_meetings_thr_def py_sort_reverse_def py_slice_to_Nil)
  have z1: "fst (search_meetings_thr ar thr val provider db 0) = []"
    and z2: "fst (get_similar_meetings_thr ar thr val jv db mid 0) = []"
    using 1 2 by (simp_all add: py_slice_to_zero)
  have s1: "snd (search_meetings_thr ar thr val provider db n) =
      snd (search_meetings_thr ar thr val provider db n')"
    and s2: "snd (get_similar_meetings_thr ar thr val jv db mid n) =
      snd (get_similar_meetings_thr ar thr val jv db mid n')"
    using 1 2 by simp_all
  have n1: "fst (search_meetings_thr ar thr val provider db n) =
        take (length (fst (search_meetings_thr ar thr val provider db (int (length (meetings db))))) - nat (- n))
          (fst (search_meetings_thr ar thr val provider db (int (length (meetings db)))))" if "n < 0"
    using 1 that by (simp add: py_slice_to_all) (simp add: py_slice_to_def)
  have n2: "fst (get_similar_meetings_thr ar thr val jv db mid n) =
        take (length (fst (get_similar_meetings_thr ar thr val jv db mid (int (length (meetings db))))) - nat (- n))
          (fst (get_similar_meetings_thr ar thr val jv db mid (int (length (meetings db)))))" if "n < 0"
    using 2 that by (simp add: py_slice_to_all) (simp add: py_slice_to_def)
  from z1 z2 s1 s2 e1 e2 e3 n1 n2 show ?thesis by blast
qed

theorem search_limit_zero_and_negative_witness:
  "select_embedded (store_of []) = [] \<and>
   search_meetings_thr exact (3 / 10) float32_value (Inr [1, 0]) (store_of []) 5 = ([], []) \<and>
   select_others (store_of [(1, [0,0,0x80,0x3F, 0,0,0,0])]) 1 = [] \<and>
   get_similar_meetings_thr exact (2 / 10) float32_value (\<lambda>s. True)
     (store_of [(1, [0,0,0x80,0x3F, 0,0,0,0])]) 1 5 = ([], []) \<and>
   (- 1 :: int) < 0 \<and>
   map hit_id (fst (search_meetings_thr exact (3 / 10) float32_value (Inr [1, 0])
     (store_of [(1, [0,0,0x80,0x3F, 0,0,0,0]), (3, [0,0,0x40,0x40, 0,0,0x80,0x40])]) 2)) = [1, 3] \<and>
   map hit_id (fst (search_meetings_thr exact (3 / 10) float32_value (Inr [1, 0])
     (store_of [(1, [0,0,0x80,0x3F, 0,0,0,0]), (3, [0,0,0x40,0x40, 0,0,0x80,0x40])]) (- 1))) = [1] \<and>
   fst (search_meetings_thr exact (3 / 10) float32_value (Inr [1, 0])
      (store_of [(1, [0,0,0x80,0x3F, 0,0,0,0]), (3, [0,0,0x40,0x40, 0,0,0x80,0x40])]) (- 1)) =
    take (length (fst (search_meetings_thr exact (3 / 10) float32_value (Inr [1, 0])
        (store_of [(1, [0,0,0x80,0x3F, 0,0,0,0]), (3, [0,0,0x40,0x40, 0,0,0x80,0x40])])
        (int (length (meetings
          (store_of [(1, [0,0,0x80,0x3F, 0,0,0,0]), (3, [0,0,0x40,0x40, 0,0,0x80,0x40])])))))) -
        nat (- (- 1)))
      (fst (search_meetings_thr exact (3 / 10) float32_value (Inr [1, 0])
        (store_of [(1, [0,0,0x80,0x3F, 0,0,0,0]), (3, [0,0,0x40,0x40, 0,0,0x80,0x40])])
        (int (length (meetings
          (store_of [(1, [0,0,0x80,0x3F, 0,0,0,0]), (3, [0,0,0x40,0x40, 0,0,0x80,0x40])]))))))"
proof -
  have no_rows: "select_embedded (store_of []) = []"
    by (simp add: select_embedded_def List.map_filter_def store_of_def)
  have r1: "search_meetings_thr exact (3 / 10) float32_value (Inr [1, 0]) (store_of []) 5 = ([], [])"
    using no_rows
      search_limit_zero_and_negative [of exact "3 / 10" float32_value "Inr [1, 0]" "store_of []"
        "\<lambda>s. True" 1 5 5 "[1, 0]"]
    by simp
  have no_others: "select_others (store_of [(1, [0,0,0x80,0x3F, 0,0,0,0])]) 1 = []"
    by (simp add: select_others_def select_embedded_def List.map_filter_def store_of_def
        stored_meeting_def)
  have own: "get_meeting_by_id (\<lambda>s. True) (store_of [(1, [0,0,0x80,0x3F, 0,0,0,0])]) 1 =
      (Some (stored_meeting 1 [0,0,0x80,0x3F, 0,0,0,0]), [])"
    "m_embeddings (stored_meeting 1 [0,0,0x80,0x3F, 0,0,0,0]) = Some [0,0,0x80,0x3F, 0,0,0,0]"
    "deserialize_embeddings float32_value [0,0,0x80,0x3F, 0,0,0,0] = Inr [1, 0]"
    by (simp_all add: get_meeting_by_id_def store_of_def stored_meeting_def json_loads_def
        deserialize_embeddings_def np_frombuffer_def le_word32_def float32_value_def)
  have r2: "get_similar_meetings_thr exact (2 / 10) float32_value (\<lambda>s. True)
      (store_of [(1, [0,0,0x80,0x3F, 0,0,0,0])]) 1 5 = ([], [])"
    using no_others own
      search_limit_zero_and_negative [of exact "2 / 10" float32_value "Inr [1, 0]"
        "store_of [(1, [0,0,0x80,0x3F, 0,0,0,0])]" "\<lambda>s. True" 1 5 5 "[1, 0]"
        "stored_meeting 1 [0,0,0x80,0x3F, 0,0,0,0]" "[0,0,0x80,0x3F, 0,0,0,0]" "[1, 0]"]
    by simp
  have full: "map hit_id (fst (search_meetings_thr exact (3 / 10) float32_value (Inr [1, 0])
      (store_of [(1, [0,0,0x80,0x3F, 0,0,0,0]), (3, [0,0,0x40,0x40, 0,0,0x80,0x40])]) 2)) = [1, 3]"
    by (simp add: eval_defs)
  have negative: "(- 1 :: int) < 0"
    by simp
  have cut: "map hit_id (fst (search_meetings_thr exact (3 / 10) float32_value (Inr [1, 0])
      (store_of [(1, [0,0,0x80,0x3F, 0,0,0,0]), (3, [0,0,0x40,0x40, 0,0,0x80,0x40])]) (- 1))) = [1]"
    by (simp add: eval_defs)
  note inst = search_limit_zero_and_negative [of exact "3 / 10" float32_value "Inr [1, 0]"
      "store_of [(1, [0,0,0x80,0x3F, 0,0,0,0]), (3, [0,0,0x40,0x40, 0,0,0x80,0x40])]"
      "\<lambda>s. True" 1 "- 1" "- 1" "[1, 0]"]
  have r3: "fst (search_meetings_thr exact (3 / 10) float32_value (Inr [1, 0])
      (store_of [(1, [0,0,0x80,0x3F, 0,0,0,0]), (3, [0,0,0x40,0x40, 0,0,0x80,0x40])]) (- 1)) =
    take (length (fst (search_meetings_thr exact (3 / 10) float32_value (Inr [1, 0])
        (store_of [(1, [0,0,0x80,0x3F, 0,0,0,0]), (3, [0,0,0x40,0x40, 0,0,0x80,0x40])])
        (int (length (meetings
          (store_of [(1, [0,0,0x80,0x3F, 0,0,0,0]), (3, [0,0,0x40,0x40, 0,0,0x80,0x40])])))))) -
        nat (- (- 1)))
      (fst (search_meetings_thr exact (3 / 10) float32_value (Inr [1, 0])
        (store_of [(1, [0,0,0x80,0x3F, 0,0,0,0]), (3, [0,0,0x40,0x40, 0,0,0x80,0x40])])
        (int (length (meetings
          (store_of [(1, [0,0,0x80,0x3F, 0,0,0,0]), (3, [0,0,0x40,0x40, 0,0,0x80,0x40])]))))))"
    by (rule conjunct1 [OF mp [OF inst [THEN conjunct2, THEN conjunct2, THEN conjunct2,
              THEN conjunct2, THEN conjunct2, THEN conjunct2] negative]])
  from no_rows r1 no_others r2 negative full cut r3 show ?thesis
    by (intro conjI)
qed

text \<open>
  The claim as the specification states it fails for a negative limit: the rows similar to
  meeting 1, cut with \<^verbatim>\<open>max_results = -1\<close>, are not empty.
\<close>

theorem negative_limit_counterexample:
  "(- 1 :: int) \<le> 0 \<and>
   map hit_id (fst (get_similar_meetings exact float32_value (\<lambda>s. True)
     (store_of [(1, [0,0,0x80,0x3F, 0,0,0,0]), (2, [0,0,0,0, 0,0,0x80,0x3F]),
                (3, [0,0,0x40,0x40, 0,0,0x80,0x40]), (4, [0,0,0,0x40, 0,0,0,0])]) 1 (- 1))) = [4] \<and>
   fst (get_similar_meetings exact float32_value (\<lambda>s. True)
     (store_of [(1, [0,0,0x80,0x3F, 0,0,0,0]), (2, [0,0,0,0, 0,0,0x80,0x3F]),
                (3, [0,0,0x40,0x40, 0,0,0x80,0x40]), (4, [0,0,0,0x40, 0,0,0,0])]) 1 (- 1)) \<noteq> []"
  by (simp add: eval_defs)

section \<open>Failures and what the user sees\<close>




section \<open>Similar meetings\<close>

text \<open>
  Claim C10. No entry returned by \<^verbatim>\<open>get_similar_meetings\<close> for \<open>meeting_id\<close> has that id:
  the row of the meeting is left out of the fetched rows before any scoring.
\<close>

theorem similar_excludes_self:
  "(\<forall>h\<in>set (fst (get_similar_meetings_thr ar thr val jv db mid n)). hit_id h \<noteq> mid) \<and>
   (\<forall>(m, blob)\<in>set (select_others db mid). m_id m \<noteq> mid)"
proof -
  have "hit_id h \<noteq> mid" if h: "h \<in> set (fst (get_similar_meetings_thr ar thr val jv db mid n))" for h
  proof (rule disjE [OF get_similar_meetings_thr_cases [of ar thr val jv db mid n]])
    assume "fst (get_similar_meetings_thr ar thr val jv db mid n) = []"
    then show ?thesis using h by simp
  next
    assume "\<exists>m blob q results. get_meeting_by_id jv db mid = (Some m, []) \<and>
      m_embeddings m = Some blob \<and> blob \<noteq> [] \<and>
      deserialize_embeddings val blob = Inr q \<and>
      similar_rows ar thr val q (select_others db mid) [] = Inr results \<and>
      get_similar_meetings_thr ar thr val jv db mid n =
        (py_slice_to (py_sort_reverse similarity results) n, [])"
    then obtain q results where run: "similar_rows ar thr val q (select_others db mid) [] = Inr results"
      and res: "fst (get_similar_meetings_thr ar thr val jv db mid n) =
        py_slice_to (py_sort_reverse similarity results) n"
      by auto
    have "set (py_slice_to (py_sort_reverse similarity results) n) \<subseteq> set results"
      using set_mono_prefix [OF prefix_py_slice_to [of "py_sort_reverse similarity results" n]]
      by (simp add: set_py_sort_reverse)
    then have "hit_id h \<in> set (map hit_id results)"
      using h res by auto
    then have "hit_id h \<in> (\<lambda>(m, blob). m_id m) ` set (select_others db mid)"
      unfolding similar_rows_ids [OF run] by auto
    then show ?thesis
      using select_others_ids [of db mid] by auto
  qed
  then show ?thesis
    using select_others_ids [of db mid] by blast
qed

theorem similar_excludes_self_witness:
  "map hit_id (fst (get_similar_meetings_thr exact (2 / 10) float32_value (\<lambda>s. True)
     (store_of [(1, [0,0,0x80,0x3F, 0,0,0,0]), (3, [0,0,0x40,0x40, 0,0,0x80,0x40]),
                (4, [0,0,0,0x40, 0,0,0,0])]) 1 3)) = [4, 3] \<and>
   (4 :: int) \<noteq> 1 \<and> (3 :: int) \<noteq> 1 \<and>
   map (\<lambda>(m, blob). m_id m) (select_others
     (store_of [(1, [0,0,0x80,0x3F, 0,0,0,0]), (3, [0,0,0x40,0x40, 0,0,0x80,0x40]),
                (4, [0,0,0,0x40, 0,0,0,0])]) 1) = [3, 4]"
  using similar_excludes_self [of exact "2 / 10" float32_value "\<lambda>s. True"
     "store_of [(1, [0,0,0x80,0x3F, 0,0,0,0]), (3, [0,0,0x40,0x40, 0,0,0x80,0x40]),
                (4, [0,0,0,0x40, 0,0,0,0])]" 1 3]
  by (simp add: eval_defs)

end
